theory Spec2Isabelle
  imports Main "HOL-Library.Product_Lexorder" "HOL-Library.Sublist" "HOL-Library.Multiset"
begin

section \<open>JavaScript strings and values\<close>

text \<open>
  A string is a list of characters, and a character stands for the code point of the same
  number, U+0000 to U+00FF: the ASCII characters and the Latin-1 supplement. The string
  methods used by \<^verbatim>\<open>apps/server/src/modules/ai/routes.ts\<close> are written out below for
  text of these code points; code points above U+00FF are not represented.
\<close>

text \<open>The letters with a lower-case form: A to Z, and U+00C0 to U+00DE without the
  multiplication sign U+00D7. The lower-case form is 32 code points further on.\<close>

definition is_upper :: "char \<Rightarrow> bool" where
  "is_upper c =
     ((65 \<le> (of_char c :: nat) \<and> (of_char c :: nat) \<le> 90)
      \<or> (192 \<le> (of_char c :: nat) \<and> (of_char c :: nat) \<le> 222 \<and> (of_char c :: nat) \<noteq> 215))"

definition is_lower :: "char \<Rightarrow> bool" where
  "is_lower c = (97 \<le> (of_char c :: nat) \<and> (of_char c :: nat) \<le> 122)"

definition is_digit :: "char \<Rightarrow> bool" where
  "is_digit c = (48 \<le> (of_char c :: nat) \<and> (of_char c :: nat) \<le> 57)"

text \<open>The members of the regular expression class \<^verbatim>\<open>\s\<close> up to U+00FF, which are also
  the characters that \<^verbatim>\<open>trim\<close> removes: tab, line feed, vertical tab, form feed, carriage
  return, space and the no-break space U+00A0.\<close>

definition is_space :: "char \<Rightarrow> bool" where
  "is_space c =
     ((9 \<le> (of_char c :: nat) \<and> (of_char c :: nat) \<le> 13) \<or> (of_char c :: nat) = 32
      \<or> (of_char c :: nat) = 160)"

definition lower_char :: "char \<Rightarrow> char" where
  "lower_char c = (if is_upper c then char_of ((of_char c :: nat) + 32) else c)"

text \<open>\<^verbatim>\<open>s.toLowerCase()\<close>\<close>

definition toLowerCase :: "string \<Rightarrow> string" where
  "toLowerCase s = map lower_char s"

text \<open>\<^verbatim>\<open>s.replace(/\s+/g, '-')\<close>: every maximal run of whitespace becomes one hyphen.\<close>

function replace_spaces :: "string \<Rightarrow> string" where
  "replace_spaces [] = []"
| "replace_spaces (c # cs) =
     (if is_space c then CHR ''-'' # replace_spaces (dropWhile is_space cs)
      else c # replace_spaces cs)"
  by pat_completeness auto
termination
  by (relation "measure length") (auto simp: length_dropWhile_le less_Suc_eq_le)

text \<open>\<^verbatim>\<open>s.replace(/[^a-z0-9-]/g, '')\<close>\<close>

definition slug_char :: "char \<Rightarrow> bool" where
  "slug_char c = (is_lower c \<or> is_digit c \<or> c = CHR ''-'')"

definition strip_non_slug :: "string \<Rightarrow> string" where
  "strip_non_slug s = filter slug_char s"

text \<open>\<^verbatim>\<open>s.slice(-8)\<close>: the last eight characters, the whole string when it is shorter.\<close>

definition slice_last8 :: "string \<Rightarrow> string" where
  "slice_last8 s = drop (length s - 8) s"

text \<open>\<^verbatim>\<open>s.trim()\<close>\<close>

definition trim :: "string \<Rightarrow> string" where
  "trim s = rev (dropWhile is_space (rev (dropWhile is_space s)))"

text \<open>A number inside a template literal: its decimal digits.\<close>

fun string_of_nat :: "nat \<Rightarrow> string" where
  "string_of_nat n =
     (if n < 10 then [char_of (48 + n)]
      else string_of_nat (n div 10) @ [char_of (48 + n mod 10)])"

declare string_of_nat.simps [simp del]

text \<open>
  The title normalisation shared by the course slug and the lesson slugs:
  \<^verbatim>\<open>title.toLowerCase().replace(/\s+/g, '-').replace(/[^a-z0-9-]/g, '')\<close>.
\<close>

definition baseSlug :: "string \<Rightarrow> string" where
  "baseSlug t = strip_non_slug (replace_spaces (toLowerCase t))"

text \<open>
  A thrown JavaScript value. The handlers only ask whether it is an \<^verbatim>\<open>Error\<close> and,
  if so, for its message.
\<close>

datatype thrown = Error string | NonError

section \<open>The data store\<close>

text \<open>
  The schema module is not part of the sources; the rows carry the columns that the routes
  read or write. The type of the rating column and its order are the database's: the model
  takes them as the type parameter \<open>'r\<close>, ordered by its \<open>linorder\<close>.
\<close>

datatype level = Beginner | Intermediate | Advanced

datatype lesson_type = Video | Text | Quiz | Assignment

fun level_str :: "level \<Rightarrow> string" where
  "level_str Beginner = ''beginner''"
| "level_str Intermediate = ''intermediate''"
| "level_str Advanced = ''advanced''"

fun lesson_type_str :: "lesson_type \<Rightarrow> string" where
  "lesson_type_str Video = ''video''"
| "lesson_type_str Text = ''text''"
| "lesson_type_str Quiz = ''quiz''"
| "lesson_type_str Assignment = ''assignment''"

record user_row =
  u_id :: string
  u_role :: string

record 'r course_row =
  c_id :: string
  c_title :: string
  c_slug :: string
  c_description :: string
  c_instructorId :: string
  c_thumbnail :: "string option"
  c_category :: string
  c_tags :: "string list"
  c_level :: string
  c_duration :: string
  c_price :: string
  c_prerequisites :: "string list"
  c_learningObjectives :: "string list"
  c_status :: string
  c_rating :: 'r
  c_enrollmentCount :: nat

record lesson_row =
  l_id :: string
  l_courseId :: string
  l_title :: string
  l_slug :: string
  l_description :: string
  l_type :: string
  l_content :: string
  l_duration :: string
  l_order :: nat
  l_isFree :: bool

record category_row =
  g_name :: string
  g_description :: string

record 'r db =
  users :: "user_row list"
  courses :: "'r course_row list"
  lessonsTable :: "lesson_row list"
  categories :: "category_row list"

text \<open>The columns selected by the two catalogue tools.\<close>

record 'r course_view =
  v_id :: string
  v_title :: string
  v_description :: string
  v_category :: string
  v_level :: string
  v_duration :: string
  v_rating :: 'r
  v_enrollmentCount :: nat

text \<open>
  JavaScript values as the routes build and inspect them. An object is a list of
  members in the order of the object literal; \<open>VUndefined\<close> is what a missing member
  reads as.
\<close>

datatype 'r jval =
    VUndefined
  | VNull
  | VBool bool
  | VNum nat
  | VInt int
  | VStr string
  | VStrs "string list"
  | VCourse "'r course_row"
  | VViews "'r course_view list"
  | VObj "(string \<times> 'r jval) list"

text \<open>\<^verbatim>\<open>v?.k\<close>: the member \<open>k\<close> of an object, \<^verbatim>\<open>undefined\<close> on \<^verbatim>\<open>null\<close>, on
  \<^verbatim>\<open>undefined\<close> and on a missing member.\<close>

fun opt_member :: "'r jval \<Rightarrow> string \<Rightarrow> 'r jval" where
  "opt_member (VObj ms) k = (case map_of ms k of Some v \<Rightarrow> v | None \<Rightarrow> VUndefined)"
| "opt_member _ k = VUndefined"

fun truthy :: "'r jval \<Rightarrow> bool" where
  "truthy VUndefined = False"
| "truthy VNull = False"
| "truthy (VBool b) = b"
| "truthy (VNum n) = (n \<noteq> 0)"
| "truthy (VInt i) = (i \<noteq> 0)"
| "truthy (VStr s) = (s \<noteq> [])"
| "truthy _ = True"

text \<open>\<^verbatim>\<open>a || b\<close>\<close>

definition js_or :: "'r jval \<Rightarrow> 'r jval \<Rightarrow> 'r jval" where
  "js_or a b = (if truthy a then a else b)"

section \<open>The course creation tool\<close>

text \<open>The elements of the tool's \<^verbatim>\<open>lessons\<close> parameter and the parameter object itself,
  as the zod schema of \<^verbatim>\<open>createCourseTool\<close> declares them.\<close>

record lesson_draft =
  d_title :: string
  d_description :: string
  d_type :: lesson_type
  d_duration :: string
  d_content :: string

record course_args =
  title :: string
  description :: string
  category :: string
  level :: level
  duration :: string
  tags :: "string list"
  prerequisites :: "string list"
  learningObjectives :: "string list"
  lessons :: "lesson_draft list"
  instructorId :: string

text \<open>
  What one execution of the tool takes from outside the program: the two random indices,
  the successive results of \<^verbatim>\<open>createId()\<close>, and the outcome of each database statement.
  A random index is the number that the engine computes for
  \<^verbatim>\<open>Math.floor(Math.random() * n)\<close> in this execution, given the length \<open>n\<close> of the
  array; the draw and the double-precision product belong to the engine and are not
  computed here. An \<^verbatim>\<open>insert(...).returning()\<close> either throws, or returns no row and
  stores nothing, or stores the row and returns it with the column defaults filled in.
\<close>

datatype insert_outcome = Inserted | NoRowReturned | InsertThrows thrown

record 'r env =
  instructors_query :: "thrown option"
  instructor_index :: "nat \<Rightarrow> int"
  thumbnail_index :: "nat \<Rightarrow> int"
  createId :: "nat \<Rightarrow> string"
  course_insert :: insert_outcome
  lessons_insert :: "thrown option"
  default_rating :: 'r
  default_enrollmentCount :: nat

definition COURSE_THUMBNAILS :: "string list" where
  "COURSE_THUMBNAILS =
    [''https://images.pexels.com/photos/4050315/pexels-photo-4050315.jpeg'',
     ''https://images.pexels.com/photos/2004161/pexels-photo-2004161.jpeg'',
     ''https://images.pexels.com/photos/3861969/pexels-photo-3861969.jpeg'',
     ''https://images.pexels.com/photos/1181467/pexels-photo-1181467.jpeg'',
     ''https://images.pexels.com/photos/1181244/pexels-photo-1181244.jpeg'',
     ''https://images.pexels.com/photos/577585/pexels-photo-577585.jpeg'',
     ''https://images.pexels.com/photos/1181675/pexels-photo-1181675.jpeg'',
     ''https://images.pexels.com/photos/8386440/pexels-photo-8386440.jpeg'']"

text \<open>\<^verbatim>\<open>xs[Math.floor(Math.random() * xs.length)]\<close>, with the random index given as a
  function of the length: the element, or \<^verbatim>\<open>undefined\<close> (here \<open>None\<close>) when the index is
  not one of the array's.\<close>

definition random_element :: "(nat \<Rightarrow> int) \<Rightarrow> 'a list \<Rightarrow> 'a option" where
  "random_element index xs =
     (let i = index (length xs)
      in if 0 \<le> i \<and> i < int (length xs) then Some (xs ! nat i) else None)"

definition getRandomThumbnail :: "'r env \<Rightarrow> string option" where
  "getRandomThumbnail e = random_element (thumbnail_index e) COURSE_THUMBNAILS"

text \<open>Reading \<^verbatim>\<open>.id\<close> of \<^verbatim>\<open>undefined\<close> throws a \<^verbatim>\<open>TypeError\<close>, which is an
  \<^verbatim>\<open>Error\<close>; its message is the engine's.\<close>

definition undefined_id_message :: string where
  "undefined_id_message =
     ''Cannot read properties of undefined (reading '' @ [CHR 0x27] @ ''id'' @ [CHR 0x27] @ '')''"

text \<open>\<^verbatim>\<open>select({ id: users.id }).from(users).where(eq(users.role, 'instructor'))\<close>\<close>

definition select_instructors :: "'r db \<Rightarrow> string list" where
  "select_instructors d = map u_id (filter (\<lambda>u. u_role u = ''instructor'') (users d))"

definition getRandomInstructor :: "'r env \<Rightarrow> 'r db \<Rightarrow> thrown + string" where
  "getRandomInstructor e d =
     (case instructors_query e of
        Some t \<Rightarrow> Inl t
      | None \<Rightarrow>
          (let instructors = select_instructors d
           in if length instructors = 0
              then Inl (Error ''No instructors found in the database'')
              else (case random_element (instructor_index e) instructors of
                      None \<Rightarrow> Inl (Error undefined_id_message)
                    | Some i \<Rightarrow> Inr i)))"

text \<open>
  The rows of \<^verbatim>\<open>lessonsToInsert\<close>. The call \<open>createId e 0\<close> is the course's; lesson
  \<open>index\<close> takes the next two, first for its \<^verbatim>\<open>id\<close>, then for the suffix of its slug.
\<close>

definition lessonData :: "'r env \<Rightarrow> string \<Rightarrow> nat \<Rightarrow> lesson_draft \<Rightarrow> lesson_row" where
  "lessonData e courseId index lesson =
     \<lparr> l_id = createId e (2 * index + 1),
       l_courseId = courseId,
       l_title = d_title lesson,
       l_slug = baseSlug (d_title lesson) @ ''-'' @ slice_last8 (createId e (2 * index + 2)),
       l_description = d_description lesson,
       l_type = lesson_type_str (d_type lesson),
       l_content = d_content lesson,
       l_duration = d_duration lesson,
       l_order = index + 1,
       l_isFree = (index = 0) \<rparr>"

definition lessonsToInsert :: "'r env \<Rightarrow> string \<Rightarrow> lesson_draft list \<Rightarrow> lesson_row list" where
  "lessonsToInsert e courseId ls =
     map (\<lambda>(index, lesson). lessonData e courseId index lesson) (enumerate 0 ls)"

definition course_values :: "'r env \<Rightarrow> course_args \<Rightarrow> string \<Rightarrow> 'r course_row" where
  "course_values e a validInstructorId =
     (let courseId = createId e 0;
          slug = baseSlug (title a) @ ''-'' @ slice_last8 courseId
      in \<lparr> c_id = courseId,
           c_title = title a,
           c_slug = slug,
           c_description = description a,
           c_instructorId = validInstructorId,
           c_thumbnail = getRandomThumbnail e,
           c_category = category a,
           c_tags = tags a,
           c_level = level_str (level a),
           c_duration = duration a,
           c_price = ''0'',
           c_prerequisites = prerequisites a,
           c_learningObjectives = learningObjectives a,
           c_status = ''published'',
           c_rating = default_rating e,
           c_enrollmentCount = default_enrollmentCount e \<rparr>)"

definition failure :: "string \<Rightarrow> 'r jval" where
  "failure msg =
     VObj [(''success'', VBool False), (''error'', VStr ''Failed to create course''),
           (''message'', VStr msg)]"

text \<open>The outer \<^verbatim>\<open>catch\<close> of the tool.\<close>

fun caught :: "thrown \<Rightarrow> 'r jval" where
  "caught (Error m) = failure m"
| "caught NonError = failure ''Unknown error occurred while creating course''"

text \<open>The inner \<^verbatim>\<open>catch\<close> around the lesson insert rethrows a new \<^verbatim>\<open>Error\<close>.\<close>

fun lessonError :: "thrown \<Rightarrow> thrown" where
  "lessonError (Error m) = Error (''Failed to create lessons: '' @ m)"
| "lessonError NonError = Error (''Failed to create lessons: Unknown error'')"

definition success_message :: "string \<Rightarrow> nat \<Rightarrow> string" where
  "success_message t lessonsCount =
     ''Course \"'' @ t @ ''\" has been successfully created and published with ''
       @ string_of_nat lessonsCount @ '' lessons.''"

definition success :: "'r course_row \<Rightarrow> string \<Rightarrow> nat \<Rightarrow> 'r jval" where
  "success row t lessonsCount =
     VObj [(''success'', VBool True), (''course'', VCourse row),
           (''lessonsCreated'', VNum lessonsCount),
           (''message'', VStr (success_message t lessonsCount))]"

text \<open>\<^verbatim>\<open>createCourseTool.execute\<close>: the tool's result and the data store afterwards.\<close>

definition createCourseTool :: "'r env \<Rightarrow> 'r db \<Rightarrow> course_args \<Rightarrow> 'r jval \<times> 'r db" where
  "createCourseTool e d a =
     (case getRandomInstructor e d of
        Inl t \<Rightarrow> (caught t, d)
      | Inr validInstructorId \<Rightarrow>
          (let row = course_values e a validInstructorId
           in case course_insert e of
                InsertThrows t \<Rightarrow> (caught t, d)
              | NoRowReturned \<Rightarrow>
                  (caught (Error ''Course creation failed - no data returned from database''), d)
              | Inserted \<Rightarrow>
                  (let d1 = d\<lparr>courses := courses d @ [row]\<rparr>
                   in if length (lessons a) > 0
                      then (case lessons_insert e of
                              Some t \<Rightarrow> (caught (lessonError t), d1)
                            | None \<Rightarrow>
                                (success row (title a) (length (lessons a)),
                                 d1\<lparr>lessonsTable := lessonsTable d1
                                       @ lessonsToInsert e (c_id row) (lessons a)\<rparr>))
                      else (success row (title a) (length (lessons a)), d1))))"

section \<open>The catalogue tools of the chat route\<close>

text \<open>
  The outcome of a \<^verbatim>\<open>select\<close> on the course table: the statement throws, or the database
  reads the rows of the table, in an order of its own choosing. The outcome belongs to a
  data store when the rows read are the rows of its course table, each as often as it is
  there.
\<close>

datatype 'r select_outcome = SelectThrows thrown | SelectReads "'r course_row list"

fun reads_table :: "'r select_outcome \<Rightarrow> 'r db \<Rightarrow> bool" where
  "reads_table (SelectThrows t) d = True"
| "reads_table (SelectReads rows) d = (mset rows = mset (courses d))"

text \<open>
  The query builder's \<^verbatim>\<open>select(...).from(courses).where(w).orderBy(courses.rating,
  courses.enrollmentCount).limit(n)\<close>. \<^verbatim>\<open>orderBy\<close> with plain columns sorts ascending,
  first by rating, then by enrolment count; rows that agree on both come out in the order
  in which the database read them, so every order that the database may return arises
  from some order of reading. The query builder passes \<^verbatim>\<open>LIMIT n\<close> on only for a number
  \<open>n \<ge> 0\<close>; for a negative number the statement has no \<^verbatim>\<open>LIMIT\<close> and returns every row.
  Limits are whole numbers.
\<close>

definition apply_limit :: "int \<Rightarrow> 'a list \<Rightarrow> 'a list" where
  "apply_limit n xs = (if 0 \<le> n then take (nat n) xs else xs)"

definition course_view_of :: "'r course_row \<Rightarrow> 'r course_view" where
  "course_view_of c =
     \<lparr> v_id = c_id c, v_title = c_title c, v_description = c_description c,
       v_category = c_category c, v_level = c_level c, v_duration = c_duration c,
       v_rating = c_rating c, v_enrollmentCount = c_enrollmentCount c \<rparr>"

definition order_key :: "('r::linorder) course_view \<Rightarrow> 'r \<times> nat" where
  "order_key v = (v_rating v, v_enrollmentCount v)"

definition select_courses ::
  "(('r::linorder) course_row \<Rightarrow> bool) \<Rightarrow> int \<Rightarrow> 'r course_row list \<Rightarrow> 'r course_view list" where
  "select_courses whereClause n rows =
     apply_limit n (sort_key order_key (map course_view_of (filter whereClause rows)))"

text \<open>\<^verbatim>\<open>getAllCoursesTool.execute\<close>; the first argument is the outcome of the query.\<close>

definition getAllCoursesTool ::
  "('r::linorder) select_outcome \<Rightarrow> 'r db \<Rightarrow> int option \<Rightarrow> 'r jval \<times> 'r db" where
  "getAllCoursesTool outcome d limit_arg =
     (let limit = (case limit_arg of None \<Rightarrow> 50 | Some n \<Rightarrow> n)
      in case outcome of
           SelectThrows t \<Rightarrow>
             (VObj [(''error'', VStr ''Failed to get all courses''), (''courses'', VViews []),
                    (''count'', VNum 0)], d)
         | SelectReads rows \<Rightarrow>
             (let courseList = select_courses (\<lambda>c. True) limit rows
              in (VObj [(''courses'', VViews courseList),
                        (''count'', VNum (length courseList)),
                        (''totalShowing'', VNum (length courseList)),
                        (''limit'', VInt limit)], d)))"

text \<open>
  The database's \<^verbatim>\<open>LIKE\<close> on a pattern and a text: \<^verbatim>\<open>%\<close> stands for any run of
  characters, \<^verbatim>\<open>_\<close> for any one character, a backslash makes the next pattern character
  literal, and the pattern has to cover the whole text. This operator is PostgreSQL's, not
  the repository's. A pattern that ends in a lone backslash is rejected by the database;
  the tool never builds one, since it closes every pattern with \<^verbatim>\<open>%\<close>.
\<close>

fun like_match :: "string \<Rightarrow> string \<Rightarrow> bool" where
  "like_match [] s = (s = [])"
| "like_match (p # ps) [] = (p = CHR ''%'' \<and> like_match ps [])"
| "like_match (p # ps) (c # cs) =
     (if p = CHR ''%'' then like_match ps (c # cs) \<or> like_match (p # ps) cs
      else if p = CHR ''_'' then like_match ps cs
      else if p = CHR 0x5C then (case ps of [] \<Rightarrow> False | q # qs \<Rightarrow> c = q \<and> like_match qs cs)
      else c = p \<and> like_match ps cs)"

text \<open>\<^verbatim>\<open>ilike(column, pattern)\<close>: \<^verbatim>\<open>LIKE\<close> without regard to letter case. The database
  brings both sides to lower case by the rules of its locale; these are taken to be the
  rules written out above for \<^verbatim>\<open>toLowerCase\<close>.\<close>

definition ilike :: "string \<Rightarrow> string \<Rightarrow> bool" where
  "ilike column pattern = like_match (toLowerCase pattern) (toLowerCase column)"

text \<open>The conditions that \<^verbatim>\<open>searchCoursesTool\<close> pushes, in order. An absent parameter is
  \<open>None\<close>; an empty string is falsy and pushes nothing either.\<close>

definition query_condition :: "string \<Rightarrow> 'r course_row \<Rightarrow> bool" where
  "query_condition q c =
     (ilike (c_title c) (''%'' @ q @ ''%'') \<or> ilike (c_description c) (''%'' @ q @ ''%'')
      \<or> ilike (c_category c) (''%'' @ q @ ''%''))"

definition conditions ::
  "string option \<Rightarrow> string option \<Rightarrow> level option \<Rightarrow> ('r course_row \<Rightarrow> bool) list" where
  "conditions query_arg category_arg level_arg =
     (case query_arg of
        None \<Rightarrow> []
      | Some q \<Rightarrow> if q \<noteq> [] then [query_condition q] else [])
     @ (case category_arg of
          None \<Rightarrow> []
        | Some g \<Rightarrow> if g \<noteq> [] then [\<lambda>c. c_category c = g] else [])
     @ (case level_arg of
          None \<Rightarrow> []
        | Some l \<Rightarrow> [\<lambda>c. c_level c = level_str l])"

text \<open>\<^verbatim>\<open>conditions.length > 0 ? and(...conditions) : undefined\<close>\<close>

definition whereClause :: "('r course_row \<Rightarrow> bool) list \<Rightarrow> 'r course_row \<Rightarrow> bool" where
  "whereClause cs c = (if length cs > 0 then list_all (\<lambda>p. p c) cs else True)"

definition opt_str :: "string option \<Rightarrow> 'r jval" where
  "opt_str x = (case x of None \<Rightarrow> VUndefined | Some s \<Rightarrow> VStr s)"

definition searchCoursesTool ::
  "('r::linorder) select_outcome \<Rightarrow> 'r db \<Rightarrow> string option \<Rightarrow> string option
     \<Rightarrow> level option \<Rightarrow> int option \<Rightarrow> 'r jval \<times> 'r db" where
  "searchCoursesTool outcome d query_arg category_arg level_arg limit_arg =
     (let limit = (case limit_arg of None \<Rightarrow> 20 | Some n \<Rightarrow> n)
      in case outcome of
           SelectThrows t \<Rightarrow>
             (VObj [(''error'', VStr ''Failed to search courses''), (''courses'', VViews []),
                    (''count'', VNum 0)], d)
         | SelectReads rows \<Rightarrow>
             (let courseList =
                    select_courses (whereClause (conditions query_arg category_arg level_arg))
                      limit rows
              in (VObj [(''courses'', VViews courseList),
                        (''count'', VNum (length courseList)),
                        (''searchTerm'', opt_str query_arg),
                        (''category'', opt_str category_arg),
                        (''level'', opt_str (map_option level_str level_arg)),
                        (''limit'', VInt limit)], d)))"

text \<open>The \<^verbatim>\<open>courses\<close> member of a tool result.\<close>

definition courses_of :: "'r jval \<Rightarrow> 'r course_view list" where
  "courses_of r = (case opt_member r ''courses'' of VViews vs \<Rightarrow> vs | _ \<Rightarrow> [])"

section \<open>The course generation route\<close>

text \<open>
  \<^verbatim>\<open>streamText\<close> belongs to the SDK. What the route sees of it is the sequence of chunks
  of \<^verbatim>\<open>result.fullStream\<close>: the model's text fragments arrive as \<^verbatim>\<open>text-delta\<close> chunks,
  and a call of the one declared tool, \<^verbatim>\<open>createCourse\<close>, with arguments that pass the
  tool's schema makes the SDK run \<^verbatim>\<open>createCourseTool.execute\<close> and put its result into the
  stream as a \<^verbatim>\<open>tool-result\<close> chunk. Such a call names the tool, carries the arguments,
  and comes with what that execution takes from outside. A call whose arguments fail the
  schema, or that names no declared tool, runs nothing and yields no \<^verbatim>\<open>tool-result\<close>
  chunk. Every chunk that is neither a \<^verbatim>\<open>text-delta\<close> nor a \<^verbatim>\<open>tool-result\<close> is
  \<open>OtherChunk\<close>.
\<close>

datatype 'r model_event =
    ModelText string
  | ModelToolCall string course_args "'r env"
  | ModelInvalidCall string
  | ModelOther

datatype 'r chunk =
    TextDelta string
  | ToolResult string "'r jval"
  | OtherChunk

fun fullStream :: "'r db \<Rightarrow> 'r model_event list \<Rightarrow> 'r chunk list \<times> 'r db" where
  "fullStream d [] = ([], d)"
| "fullStream d (ModelText t # es) =
     (let (cs, d') = fullStream d es in (TextDelta t # cs, d'))"
| "fullStream d (ModelToolCall name a e # es) =
     (if name = ''createCourse''
      then (let (r, d1) = createCourseTool e d a;
                (cs, d') = fullStream d1 es
            in (OtherChunk # ToolResult name r # cs, d'))
      else (let (cs, d') = fullStream d es in (OtherChunk # cs, d')))"
| "fullStream d (ModelInvalidCall name # es) =
     (let (cs, d') = fullStream d es in (OtherChunk # cs, d'))"
| "fullStream d (ModelOther # es) =
     (let (cs, d') = fullStream d es in (OtherChunk # cs, d'))"

text \<open>The body of the \<^verbatim>\<open>for await\<close> loop, on the triple
  \<^verbatim>\<open>(courseCreated, courseData, aiResponse)\<close>.\<close>

fun collect :: "bool \<times> 'r jval \<times> string \<Rightarrow> 'r chunk \<Rightarrow> bool \<times> 'r jval \<times> string" where
  "collect (courseCreated, courseData, aiResponse) (TextDelta textDelta) =
     (courseCreated, courseData, aiResponse @ textDelta)"
| "collect (courseCreated, courseData, aiResponse) (ToolResult toolName r) =
     (if toolName = ''createCourse'' then (True, r, aiResponse)
      else (courseCreated, courseData, aiResponse))"
| "collect (courseCreated, courseData, aiResponse) OtherChunk =
     (courseCreated, courseData, aiResponse)"

record 'r response =
  status :: nat
  body :: "'r jval"

text \<open>The request body after JSON decoding: each member is absent or a string.\<close>

record gen_request =
  prompt :: "string option"
  req_instructorId :: "string option"

text \<open>\<^verbatim>\<open>generateCourseSchema.parse\<close>: the messages of the issues, or the parsed prompt.\<close>

definition parse_request :: "gen_request \<Rightarrow> string list + string" where
  "parse_request req =
     (case prompt req of
        None \<Rightarrow> Inl [''Required'']
      | Some p \<Rightarrow>
          if length p < 10 then Inl [''Prompt must be at least 10 characters''] else Inr p)"

text \<open>What one request takes from outside: the outcomes of the two context queries, the
  model's events, and whether reading the stream ends by throwing.\<close>

record 'r gen_env =
  courses_query :: "thrown option"
  categories_query :: "thrown option"
  model_stream :: "'r model_event list"
  stream_error :: "thrown option"

text \<open>The route's outer \<^verbatim>\<open>catch\<close> for anything but a validation error.\<close>

fun generate_failed :: "thrown \<Rightarrow> 'r response" where
  "generate_failed (Error m) =
     \<lparr> status = 500,
       body = VObj [(''error'', VStr ''Failed to generate course''), (''message'', VStr m)] \<rparr>"
| "generate_failed NonError =
     \<lparr> status = 500,
       body = VObj [(''error'', VStr ''Failed to generate course''),
                    (''message'', VStr ''Unknown error'')] \<rparr>"

definition respond ::
  "bool \<times> 'r jval \<times> string \<Rightarrow> 'r response" where
  "respond acc =
     (case acc of (courseCreated, courseData, aiResponse) \<Rightarrow>
        if courseCreated \<and> truthy (opt_member courseData ''success'')
        then \<lparr> status = 200,
               body = VObj [(''success'', VBool True),
                            (''course'', opt_member courseData ''course''),
                            (''message'', opt_member courseData ''message''),
                            (''aiResponse'', VStr (trim aiResponse))] \<rparr>
        else \<lparr> status = 500,
               body = VObj [(''error'', VStr ''Failed to create course''),
                            (''details'',
                               js_or (js_or (opt_member courseData ''message'')
                                            (opt_member courseData ''error''))
                                     (VStr ''AI did not call the createCourse tool'')),
                            (''aiResponse'', VStr (trim aiResponse)),
                            (''debugInfo'', courseData)] \<rparr>)"

text \<open>\<^verbatim>\<open>POST /ai/generate-course\<close>: the response and the data store afterwards.\<close>

definition generate_course ::
  "'r gen_env \<Rightarrow> 'r db \<Rightarrow> gen_request \<Rightarrow> 'r response \<times> 'r db" where
  "generate_course g d req =
     (case parse_request req of
        Inl issues \<Rightarrow>
          (\<lparr> status = 400,
             body = VObj [(''error'', VStr ''Invalid request data''),
                          (''details'', VStrs issues)] \<rparr>, d)
      | Inr p \<Rightarrow>
          (case courses_query g of
             Some t \<Rightarrow> (generate_failed t, d)
           | None \<Rightarrow>
               (case categories_query g of
                  Some t \<Rightarrow> (generate_failed t, d)
                | None \<Rightarrow>
                    (let (chunks, d') = fullStream d (model_stream g)
                     in case stream_error g of
                          Some t \<Rightarrow> (generate_failed t, d')
                        | None \<Rightarrow> (respond (foldl collect (False, VNull, []) chunks), d')))))"

text \<open>\<^verbatim>\<open>GET /ai/stats\<close>; the first argument is the outcome of the query (\<open>Some t\<close> when
  it throws \<open>t\<close>).\<close>

definition ai_stats :: "thrown option \<Rightarrow> 'r db \<Rightarrow> 'r response \<times> 'r db" where
  "ai_stats outcome d =
     (case outcome of
        Some t \<Rightarrow> (\<lparr> status = 500, body = VObj [(''error'', VStr ''Failed to get AI stats'')] \<rparr>, d)
      | None \<Rightarrow>
          (\<lparr> status = 200,
             body = VObj [(''totalCourses'', VNum (length (courses d))),
                          (''aiGeneratedCourses'', VNum 0),
                          (''message'', VStr ''AI course generation is operational'')] \<rparr>, d))"

section \<open>Sample inputs\<close>

text \<open>A data store with two instructor accounts and one student, one without instructors,
  and executions of the tools on them; the concrete runs below use these.\<close>

definition demo_users :: "user_row list" where
  "demo_users =
     [\<lparr>u_id = ''i1'', u_role = ''instructor''\<rparr>, \<lparr>u_id = ''s1'', u_role = ''student''\<rparr>,
      \<lparr>u_id = ''i2'', u_role = ''instructor''\<rparr>]"

definition demo_db :: "nat db" where
  "demo_db = \<lparr> users = demo_users, courses = [], lessonsTable = [], categories = [] \<rparr>"

definition students_db :: "nat db" where
  "students_db =
     \<lparr> users = [\<lparr>u_id = ''s1'', u_role = ''student''\<rparr>], courses = [], lessonsTable = [],
       categories = [] \<rparr>"

definition demo_ids :: "nat \<Rightarrow> string" where
  "demo_ids k = ''tz4a98xxat96iws9zmbrgj'' @ string_of_nat k"

definition demo_env :: "nat env" where
  "demo_env =
     \<lparr> instructors_query = None, instructor_index = (\<lambda>n. int n - 1),
       thumbnail_index = (\<lambda>n. int n - 1),
       createId = demo_ids, course_insert = Inserted, lessons_insert = None,
       default_rating = 0, default_enrollmentCount = 0 \<rparr>"

definition demo_lessons :: "lesson_draft list" where
  "demo_lessons =
     [\<lparr>d_title = ''What is HTTP'', d_description = ''x'', d_type = Video,
       d_duration = ''10 min'', d_content = ''c1''\<rparr>,
      \<lparr>d_title = ''Cache headers'', d_description = ''y'', d_type = Text,
       d_duration = ''20 min'', d_content = ''c2''\<rparr>,
      \<lparr>d_title = ''Quiz'', d_description = ''z'', d_type = Quiz,
       d_duration = ''5 min'', d_content = ''c3''\<rparr>]"

definition demo_args :: course_args where
  "demo_args =
     \<lparr> title = ''Intro to HTTP'', description = ''d'', category = ''web'', level = Beginner,
       duration = ''2 hours'', tags = [], prerequisites = [], learningObjectives = [],
       lessons = demo_lessons, instructorId = ''i1'' \<rparr>"

definition failing_lessons_env :: "nat env" where
  "failing_lessons_env = demo_env\<lparr>lessons_insert := Some (Error ''connection lost'')\<rparr>"



definition no_lessons_args :: course_args where
  "no_lessons_args = demo_args\<lparr>lessons := []\<rparr>"

text \<open>A catalogue of three courses for the concrete runs of the catalogue tools.\<close>

definition catalog_course ::
  "string \<Rightarrow> string \<Rightarrow> string \<Rightarrow> string \<Rightarrow> string \<Rightarrow> nat \<Rightarrow> nat \<Rightarrow> nat course_row" where
  "catalog_course i t ds g l r n =
     \<lparr> c_id = i, c_title = t, c_slug = i, c_description = ds, c_instructorId = ''i1'',
       c_thumbnail = None, c_category = g, c_tags = [], c_level = l, c_duration = ''1 hour'',
       c_price = ''0'', c_prerequisites = [], c_learningObjectives = [],
       c_status = ''published'', c_rating = r, c_enrollmentCount = n \<rparr>"

definition catalog_db :: "nat db" where
  "catalog_db =
     \<lparr> users = demo_users,
       courses =
         [catalog_course ''c1'' ''Advanced React'' ''Hooks and patterns'' ''frontend''
            ''advanced'' 5 10,
          catalog_course ''c2'' ''Intro to SQL'' ''Queries for beginners'' ''data''
            ''beginner'' 3 40,
          catalog_course ''c3'' ''ABC of Go'' ''Backend basics'' ''backend''
            ''beginner'' 3 7],
       lessonsTable = [], categories = [] \<rparr>"

text \<open>A well-formed request and runs of the generation route: one in which the model
  only writes text, one in which it calls the tool, and one in which the tool is run and
  its lesson insert fails.\<close>

definition valid_request :: gen_request where
  "valid_request =
     \<lparr> prompt = Some ''Beginner course on HTTP caching, 5 lessons'',
       req_instructorId = Some ''i1'' \<rparr>"


definition creating_run :: "nat gen_env" where
  "creating_run =
     \<lparr> courses_query = None, categories_query = None,
       model_stream = [ModelText ''Creating. '', ModelToolCall ''createCourse'' demo_args demo_env,
                       ModelText ''Done.''],
       stream_error = None \<rparr>"


section \<open>Vocabulary of the properties\<close>

text \<open>
  A query is plain when it holds none of the characters that \<^verbatim>\<open>LIKE\<close> treats specially;
  \<open>contains_ci q s\<close> says that \<open>q\<close> occurs in \<open>s\<close> as a contiguous substring when letter case
  is disregarded.
\<close>

definition plain_char :: "char \<Rightarrow> bool" where
  "plain_char c = (c \<noteq> CHR ''%'' \<and> c \<noteq> CHR ''_'' \<and> c \<noteq> CHR 0x5C)"

definition plain_query :: "string \<Rightarrow> bool" where
  "plain_query q = list_all plain_char q"

definition contains_ci :: "string \<Rightarrow> string \<Rightarrow> bool" where
  "contains_ci q s = sublist (toLowerCase q) (toLowerCase s)"




section \<open>Properties of the course creation tool\<close>

subsection \<open>Auxiliary facts\<close>

text \<open>A random index that is one of the array's picks the element at that index.\<close>

lemma random_element_in_range:
  assumes "0 \<le> index (length xs)" and "index (length xs) < int (length xs)"
  shows "random_element index xs = Some (xs ! nat (index (length xs)))"
    and "nat (index (length xs)) < length xs"
  using assms by (simp_all add: random_element_def Let_def)

lemma opt_member_failure: "opt_member (failure m) ''success'' = VBool False"
  by (simp add: failure_def)

lemma opt_member_caught: "opt_member (caught t) ''success'' = VBool False"
  by (cases t) (simp_all add: failure_def)

lemma lessonsToInsert_Nil: "lessonsToInsert e c [] = []"
  by (simp add: lessonsToInsert_def)

lemma createCourseTool_success:
  assumes "createCourseTool e d a = (r, d')" and "truthy (opt_member r ''success'')"
  shows "\<exists>i. getRandomInstructor e d = Inr i \<and> course_insert e = Inserted
           \<and> (lessons a = [] \<or> lessons_insert e = None)
           \<and> r = success (course_values e a i) (title a) (length (lessons a))
           \<and> d' = d\<lparr>courses := courses d @ [course_values e a i],
                     lessonsTable := lessonsTable d @ lessonsToInsert e (createId e 0) (lessons a)\<rparr>"
  using assms
  by (auto simp: createCourseTool_def Let_def opt_member_caught opt_member_failure lessonsToInsert_Nil course_values_def
           split: sum.splits insert_outcome.splits option.splits if_splits)

lemma getRandomInstructor_Inr:
  assumes "instructors_query e = None"
    and "0 \<le> instructor_index e (length (select_instructors d))"
    and "instructor_index e (length (select_instructors d)) < int (length (select_instructors d))"
  shows "getRandomInstructor e d =
           Inr (select_instructors d ! nat (instructor_index e (length (select_instructors d))))"
proof -
  have "select_instructors d \<noteq> []" using assms(2,3) by auto
  then show ?thesis
    using assms(1)
      random_element_in_range(1)[where index = "instructor_index e"
                                   and xs = "select_instructors d", OF assms(2,3)]
    by (simp add: getRandomInstructor_def Let_def)
qed

lemma lessonsToInsert_length: "length (lessonsToInsert e c ls) = length ls"
  by (simp add: lessonsToInsert_def)

lemma lessonsToInsert_nth:
  "k < length ls \<Longrightarrow> lessonsToInsert e c ls ! k = lessonData e c k (ls ! k)"
  by (simp add: lessonsToInsert_def nth_enumerate_eq)

lemma lessonsToInsert_order: "map l_order (lessonsToInsert e c ls) = [1..<Suc (length ls)]"
  by (rule nth_equalityI)
     (simp_all add: lessonsToInsert_length lessonsToInsert_nth lessonData_def
        del: upt_Suc)

lemma lessonsToInsert_isFree:
  "map l_isFree (lessonsToInsert e c ls) = map (\<lambda>k. k = 0) [0..<length ls]"
  by (rule nth_equalityI)
     (simp_all add: lessonsToInsert_length lessonsToInsert_nth lessonData_def)

lemma first_only: "0 < n \<Longrightarrow> map (\<lambda>k. k = 0) [0..<n] = True # replicate (n - 1) False"
  by (rule nth_equalityI) (auto simp: nth_Cons split: nat.splits)

lemma lessonsToInsert_fields:
  "map l_title (lessonsToInsert e c ls) = map d_title ls"
  "map l_description (lessonsToInsert e c ls) = map d_description ls"
  "map l_content (lessonsToInsert e c ls) = map d_content ls"
  "map l_duration (lessonsToInsert e c ls) = map d_duration ls"
  "map l_courseId (lessonsToInsert e c ls) = replicate (length ls) c"
  by (rule nth_equalityI;
      simp add: lessonsToInsert_length lessonsToInsert_nth lessonData_def)+

lemma success_is_True: "opt_member r ''success'' = VBool True \<Longrightarrow> truthy (opt_member r ''success'')"
  by simp

subsection \<open>Instructor resolution\<close>

text \<open>
  Claim C1, as amended. The tool never looks at the supplied \<^verbatim>\<open>instructorId\<close>: changing it
  changes neither the result nor the data store. When the instructor query returns and
  there is no instructor account, the call fails with the message that no instructors were
  found. When the instructor query returns, the random index is an index of the list of
  instructor accounts and the course insert stores its row, that row carries the id of the
  instructor account at the random index, an existing instructor account, whether or not
  the supplied id is one.
\<close>

theorem instructor_chosen_at_random:
  "createCourseTool e d (a\<lparr>instructorId := x\<rparr>) = createCourseTool e d a
   \<and> (instructors_query e = None \<and> select_instructors d = [] \<longrightarrow>
        createCourseTool e d a =
          (VObj [(''success'', VBool False), (''error'', VStr ''Failed to create course''),
                 (''message'', VStr ''No instructors found in the database'')], d))
   \<and> (instructors_query e = None \<and> course_insert e = Inserted
        \<and> 0 \<le> instructor_index e (length (select_instructors d))
        \<and> instructor_index e (length (select_instructors d)) < int (length (select_instructors d))
      \<longrightarrow> (\<exists>row. courses (snd (createCourseTool e d a)) = courses d @ [row]
              \<and> c_instructorId row
                  = select_instructors d ! nat (instructor_index e (length (select_instructors d)))
              \<and> c_instructorId row \<in> set (select_instructors d)))"
proof (intro conjI impI)
  show "createCourseTool e d (a\<lparr>instructorId := x\<rparr>) = createCourseTool e d a"
    by (simp add: createCourseTool_def course_values_def Let_def
          split: sum.splits insert_outcome.splits option.splits)
next
  assume "instructors_query e = None \<and> select_instructors d = []"
  then show "createCourseTool e d a =
      (VObj [(''success'', VBool False), (''error'', VStr ''Failed to create course''),
             (''message'', VStr ''No instructors found in the database'')], d)"
    by (simp add: createCourseTool_def getRandomInstructor_def failure_def)
next
  let ?k = "nat (instructor_index e (length (select_instructors d)))"
  assume h: "instructors_query e = None \<and> course_insert e = Inserted
        \<and> 0 \<le> instructor_index e (length (select_instructors d))
        \<and> instructor_index e (length (select_instructors d)) < int (length (select_instructors d))"
  then have g: "getRandomInstructor e d = Inr (select_instructors d ! ?k)"
    using getRandomInstructor_Inr[of e d] by simp
  have k: "?k < length (select_instructors d)" using h by auto
  show "\<exists>row. courses (snd (createCourseTool e d a)) = courses d @ [row]
              \<and> c_instructorId row = select_instructors d ! ?k
              \<and> c_instructorId row \<in> set (select_instructors d)"
    using g h k
    by (intro exI[of _ "course_values e a (select_instructors d ! ?k)"])
       (simp add: createCourseTool_def Let_def course_values_def split: option.splits)
qed

theorem instructor_chosen_at_random_witness:
  "instructors_query demo_env = None \<and> course_insert demo_env = Inserted
   \<and> select_instructors demo_db = [''i1'', ''i2'']
   \<and> instructor_index demo_env (length (select_instructors demo_db)) = 1
   \<and> createCourseTool demo_env demo_db (demo_args\<lparr>instructorId := ''i2''\<rparr>)
        = createCourseTool demo_env demo_db demo_args
   \<and> map c_instructorId (courses (snd (createCourseTool demo_env demo_db demo_args))) = [''i2'']"
proof -
  have h1: "instructors_query demo_env = None" by code_simp
  have s: "select_instructors demo_db = [''i1'', ''i2'']" by code_simp
  have i: "course_insert demo_env = Inserted" by code_simp
  have k: "instructor_index demo_env (length (select_instructors demo_db)) = 1"
    by (simp add: s demo_env_def)
  have c: "courses demo_db = []" by code_simp
  show ?thesis
    using instructor_chosen_at_random[where e = demo_env and d = demo_db and a = demo_args
                                        and x = "''i2''"] h1 s i k c
    by auto
qed

text \<open>
  Claim C1 as stated fails: the supplied id \<open>i1\<close> is an instructor account, the call
  succeeds, and the stored course row carries \<open>i2\<close>.
\<close>

theorem supplied_instructor_counterexample:
  "instructorId demo_args \<in> set (select_instructors demo_db)
   \<and> opt_member (fst (createCourseTool demo_env demo_db demo_args)) ''success'' = VBool True
   \<and> map c_instructorId (courses (snd (createCourseTool demo_env demo_db demo_args)))
        = [''i2'']
   \<and> instructorId demo_args = ''i1''"
  by code_simp

subsection \<open>No instructor accounts\<close>

text \<open>
  Claim C4. Executed on a data store without instructor accounts (the instructor query
  itself returning), the tool returns the failure object whose message is
  \<^verbatim>\<open>No instructors found in the database\<close>, and the data store is unchanged: no course
  row and no lesson row is inserted.
\<close>

theorem no_instructors_no_rows:
  assumes "instructors_query e = None" and "select_instructors d = []"
  shows "createCourseTool e d a =
           (VObj [(''success'', VBool False), (''error'', VStr ''Failed to create course''),
                  (''message'', VStr ''No instructors found in the database'')], d)"
  using assms by (simp add: createCourseTool_def getRandomInstructor_def failure_def)

theorem no_instructors_no_rows_witness:
  "instructors_query demo_env = None \<and> select_instructors students_db = []
   \<and> createCourseTool demo_env students_db demo_args =
        (VObj [(''success'', VBool False), (''error'', VStr ''Failed to create course''),
               (''message'', VStr ''No instructors found in the database'')], students_db)"
proof -
  have h1: "instructors_query demo_env = None" by (simp add: demo_env_def)
  have h2: "select_instructors students_db = []"
    by (simp add: select_instructors_def students_db_def)
  show ?thesis using h1 h2 no_instructors_no_rows[OF h1 h2, of demo_args] by simp
qed

subsection \<open>Failure of the lesson insert\<close>

text \<open>
  Claim C3. When an instructor was resolved, the course insert stored its row, and the
  insert of the non-empty lesson batch throws, the tool returns a failure object whose
  message starts with \<^verbatim>\<open>Failed to create lessons: \<close>, which differs from the message of a
  failed course creation; the course row stays in the data store and the lesson table is
  unchanged.
\<close>

theorem lesson_failure_keeps_course:
  assumes "getRandomInstructor e d = Inr i" and "course_insert e = Inserted"
    and "lessons a \<noteq> []" and "lessons_insert e = Some t"
  shows "createCourseTool e d a =
           (VObj [(''success'', VBool False), (''error'', VStr ''Failed to create course''),
                  (''message'', VStr (''Failed to create lessons: ''
                      @ (case t of Error m \<Rightarrow> m | NonError \<Rightarrow> ''Unknown error'')))],
            d\<lparr>courses := courses d @ [course_values e a i]\<rparr>)
         \<and> ''Failed to create lessons: '' @ (case t of Error m \<Rightarrow> m | NonError \<Rightarrow> ''Unknown error'')
             \<noteq> ''Course creation failed - no data returned from database''"
  using assms by (cases t) (simp_all add: createCourseTool_def Let_def failure_def)

theorem lesson_failure_keeps_course_witness:
  "getRandomInstructor failing_lessons_env demo_db = Inr ''i2''
   \<and> course_insert failing_lessons_env = Inserted \<and> lessons demo_args \<noteq> []
   \<and> lessons_insert failing_lessons_env = Some (Error ''connection lost'')
   \<and> fst (createCourseTool failing_lessons_env demo_db demo_args) =
        VObj [(''success'', VBool False), (''error'', VStr ''Failed to create course''),
              (''message'', VStr ''Failed to create lessons: connection lost'')]
   \<and> map c_title (courses (snd (createCourseTool failing_lessons_env demo_db demo_args)))
        = [''Intro to HTTP'']
   \<and> lessonsTable (snd (createCourseTool failing_lessons_env demo_db demo_args)) = []"
proof -
  have h1: "getRandomInstructor failing_lessons_env demo_db = Inr ''i2''" by code_simp
  have h2: "course_insert failing_lessons_env = Inserted" by code_simp
  have h3: "lessons demo_args \<noteq> []" by code_simp
  have h4: "lessons_insert failing_lessons_env = Some (Error ''connection lost'')" by code_simp
  have t: "title demo_args = ''Intro to HTTP''" by code_simp
  have l: "lessonsTable demo_db = []" by code_simp
  have c: "courses demo_db = []" by code_simp
  show ?thesis
    using lesson_failure_keeps_course[OF h1 h2 h3 h4] h1 h2 h3 h4 t l c
    by (simp add: course_values_def Let_def)
qed

subsection \<open>Lesson positions\<close>

text \<open>
  Claim C5. After a successful execution with a non-empty lesson list of length \<open>N\<close>, the
  lesson rows appended to the lesson table are \<open>N\<close> rows in the order of the input list,
  their positions are \<open>1, \<dots>, N\<close>, the first row is free to preview and no other row is.
  The positions come from the list index; the tool's parameters hold no position.
\<close>

theorem lesson_positions:
  assumes "createCourseTool e d a = (r, d')" and "opt_member r ''success'' = VBool True"
    and "lessons a \<noteq> []"
  shows "\<exists>rows. lessonsTable d' = lessonsTable d @ rows
           \<and> length rows = length (lessons a)
           \<and> map l_order rows = [1..<Suc (length (lessons a))]
           \<and> map l_title rows = map d_title (lessons a)
           \<and> map l_description rows = map d_description (lessons a)
           \<and> map l_content rows = map d_content (lessons a)
           \<and> map l_isFree rows = True # replicate (length (lessons a) - 1) False"
proof -
  from createCourseTool_success[OF assms(1) success_is_True[OF assms(2)]]
  have d': "lessonsTable d' = lessonsTable d @ lessonsToInsert e (createId e 0) (lessons a)"
    by auto
  have n: "0 < length (lessons a)" using assms(3) by simp
  show ?thesis
    using d' first_only[OF n]
    by (intro exI[of _ "lessonsToInsert e (createId e 0) (lessons a)"])
       (simp add: lessonsToInsert_length lessonsToInsert_order lessonsToInsert_isFree
          lessonsToInsert_fields del: upt_Suc)
qed

theorem lesson_positions_witness:
  "opt_member (fst (createCourseTool demo_env demo_db demo_args)) ''success'' = VBool True
   \<and> lessons demo_args \<noteq> []
   \<and> map l_order (lessonsTable (snd (createCourseTool demo_env demo_db demo_args))) = [1, 2, 3]
   \<and> map l_title (lessonsTable (snd (createCourseTool demo_env demo_db demo_args)))
        = [''What is HTTP'', ''Cache headers'', ''Quiz'']
   \<and> map l_isFree (lessonsTable (snd (createCourseTool demo_env demo_db demo_args)))
        = [True, False, False]"
proof -
  let ?run = "createCourseTool demo_env demo_db demo_args"
  have h1: "?run = (fst ?run, snd ?run)" by simp
  have h2: "opt_member (fst ?run) ''success'' = VBool True" by code_simp
  have h3: "lessons demo_args \<noteq> []" by code_simp
  have l: "lessonsTable demo_db = []" by code_simp
  have u: "[1..<Suc (length (lessons demo_args))] = [1, 2, 3]" by code_simp
  have ts: "map d_title (lessons demo_args) = [''What is HTTP'', ''Cache headers'', ''Quiz'']"
    by code_simp
  have r: "True # replicate (length (lessons demo_args) - 1) False = [True, False, False]"
    by code_simp
  from lesson_positions[OF h1 h2 h3] obtain rows where
    R: "lessonsTable (snd ?run) = lessonsTable demo_db @ rows
           \<and> length rows = length (lessons demo_args)
           \<and> map l_order rows = [1..<Suc (length (lessons demo_args))]
           \<and> map l_title rows = map d_title (lessons demo_args)
           \<and> map l_description rows = map d_description (lessons demo_args)
           \<and> map l_content rows = map d_content (lessons demo_args)
           \<and> map l_isFree rows = True # replicate (length (lessons demo_args) - 1) False" ..
  have rows: "lessonsTable (snd ?run) = rows" using R l by simp
  have o: "map l_order rows = [1, 2, 3]" using R u by (simp only:)
  have t: "map l_title rows = [''What is HTTP'', ''Cache headers'', ''Quiz'']"
    using R ts by (simp only:)
  have f: "map l_isFree rows = [True, False, False]" using R r by (simp only:)
  show ?thesis using h2 h3 o t f by (simp only: rows simp_thms)
qed

subsection \<open>Shape of a successful result\<close>

text \<open>
  Claim C8. A successful execution returns the object with the members \<^verbatim>\<open>success: true\<close>,
  \<^verbatim>\<open>course\<close>, \<^verbatim>\<open>lessonsCreated\<close> and \<^verbatim>\<open>message\<close>, where \<^verbatim>\<open>lessonsCreated\<close> is the length of
  the input lesson list; the returned course is the one row appended to the course table,
  its status is \<^verbatim>\<open>published\<close> and its price is \<^verbatim>\<open>0\<close>; the lesson table grows by the
  number of input lessons. With an empty lesson list the course is still created and
  \<^verbatim>\<open>lessonsCreated\<close> is 0.
\<close>

theorem success_shape:
  assumes "createCourseTool e d a = (r, d')" and "opt_member r ''success'' = VBool True"
  shows "\<exists>row. r = VObj [(''success'', VBool True), (''course'', VCourse row),
                          (''lessonsCreated'', VNum (length (lessons a))),
                          (''message'', VStr (success_message (title a) (length (lessons a))))]
           \<and> courses d' = courses d @ [row]
           \<and> c_status row = ''published'' \<and> c_price row = ''0''
           \<and> length (lessonsTable d') = length (lessonsTable d) + length (lessons a)"
proof -
  from createCourseTool_success[OF assms(1) success_is_True[OF assms(2)]]
  obtain i where r: "r = success (course_values e a i) (title a) (length (lessons a))"
    and d': "d' = d\<lparr>courses := courses d @ [course_values e a i],
                    lessonsTable := lessonsTable d @ lessonsToInsert e (createId e 0) (lessons a)\<rparr>"
    by auto
  show ?thesis
    using r d'
    by (intro exI[of _ "course_values e a i"])
       (simp add: success_def lessonsToInsert_length course_values_def Let_def)
qed

theorem success_shape_witness:
  "opt_member (fst (createCourseTool demo_env demo_db no_lessons_args)) ''success'' = VBool True
   \<and> opt_member (fst (createCourseTool demo_env demo_db no_lessons_args)) ''lessonsCreated''
        = VNum 0
   \<and> map c_status (courses (snd (createCourseTool demo_env demo_db no_lessons_args)))
        = [''published'']
   \<and> map c_price (courses (snd (createCourseTool demo_env demo_db no_lessons_args))) = [''0'']
   \<and> lessonsTable (snd (createCourseTool demo_env demo_db no_lessons_args)) = []"
proof -
  let ?run = "createCourseTool demo_env demo_db no_lessons_args"
  have h1: "?run = (fst ?run, snd ?run)" by simp
  have h2: "opt_member (fst ?run) ''success'' = VBool True" by code_simp
  have n: "lessons no_lessons_args = []" by code_simp
  have l: "lessonsTable demo_db = []" by code_simp
  have c: "courses demo_db = []" by code_simp
  from success_shape[OF h1 h2] obtain row where
    "fst ?run = VObj [(''success'', VBool True), (''course'', VCourse row),
        (''lessonsCreated'', VNum (length (lessons no_lessons_args))),
        (''message'', VStr (success_message (title no_lessons_args)
                              (length (lessons no_lessons_args))))]"
    "courses (snd ?run) = courses demo_db @ [row]"
    "c_status row = ''published''" "c_price row = ''0''"
    "length (lessonsTable (snd ?run)) = length (lessonsTable demo_db) + length (lessons no_lessons_args)"
    by blast
  then show ?thesis using n l c by simp
qed

subsection \<open>Slugs of courses with the same title\<close>




section \<open>Properties of the catalogue tools\<close>

subsection \<open>Auxiliary facts\<close>

lemma apply_limit_length:
  "length (apply_limit n xs) = (if 0 \<le> n then min (nat n) (length xs) else length xs)"
  by (simp add: apply_limit_def min.commute)

lemma apply_limit_set: "set (apply_limit n xs) \<subseteq> set xs"
  by (auto simp: apply_limit_def dest: in_set_takeD)

lemma select_courses_length:
  "length (select_courses w n rows)
     = (if 0 \<le> n then min (nat n) (length (filter w rows)) else length (filter w rows))"
  by (simp add: select_courses_def apply_limit_length)

lemma select_courses_set:
  "set (select_courses w n rows) \<subseteq> course_view_of ` {c \<in> set rows. w c}"
  using apply_limit_set[of n "sort_key order_key (map course_view_of (filter w rows))"]
  by (auto simp: select_courses_def)

lemma select_courses_sorted:
  "sorted_wrt (\<lambda>v w. v_rating v < v_rating w
                 \<or> (v_rating v = v_rating w \<and> v_enrollmentCount v \<le> v_enrollmentCount w))
     (select_courses w n rows)"
proof -
  let ?ys = "sort_key order_key (map course_view_of (filter w rows))"
  have s: "sorted (map order_key ?ys)"
    by (rule sorted_sort_key)
  have "sorted (map order_key (apply_limit n ?ys))"
  proof (cases "0 \<le> n")
    case True
    have "sorted (take (nat n) (map order_key ?ys))" using s by (rule sorted_wrt_take)
    then show ?thesis using True by (simp add: apply_limit_def take_map)
  next
    case False
    then show ?thesis using s by (simp add: apply_limit_def)
  qed
  then have "sorted_wrt (\<lambda>v w. order_key v \<le> order_key w) (select_courses w n rows)"
    by (simp add: sorted_wrt_map select_courses_def)
  then show ?thesis
    by (rule sorted_wrt_mono_rel[rotated]) (auto simp: order_key_def less_eq_prod_def)
qed

lemma reads_table_set: "reads_table (SelectReads rows) d \<Longrightarrow> set rows = set (courses d)"
  by (auto dest: mset_eq_setD)

lemma reads_table_length: "reads_table (SelectReads rows) d \<Longrightarrow> length rows = length (courses d)"
  by (auto dest: mset_eq_length)

text \<open>On a plain query the pattern \<^verbatim>\<open>%q%\<close> matches exactly the texts that contain the
  query.\<close>

lemma like_match_percent: "like_match ''%'' s"
  by (induction s) simp_all

lemma like_match_plain_prefix:
  "list_all plain_char q \<Longrightarrow> like_match (q @ ''%'') s \<longleftrightarrow> prefix q s"
proof (induction q arbitrary: s)
  case Nil
  then show ?case by (simp add: like_match_percent)
next
  case (Cons p ps)
  then show ?case by (cases s) (auto simp: plain_char_def)
qed

lemma like_match_percent_first:
  "like_match (CHR ''%'' # pat) s \<longleftrightarrow> (\<exists>t. suffix t s \<and> like_match pat t)"
proof (induction s)
  case Nil
  then show ?case by (cases pat) auto
next
  case (Cons c cs)
  have "like_match (CHR ''%'' # pat) (c # cs)
          \<longleftrightarrow> like_match pat (c # cs) \<or> like_match (CHR ''%'' # pat) cs"
    by simp
  also have "\<dots> \<longleftrightarrow> like_match pat (c # cs) \<or> (\<exists>t. suffix t cs \<and> like_match pat t)"
    using Cons.IH by simp
  also have "\<dots> \<longleftrightarrow> (\<exists>t. suffix t (c # cs) \<and> like_match pat t)"
    by (auto simp: suffix_Cons)
  finally show ?case .
qed

lemma like_match_contains:
  assumes "list_all plain_char q"
  shows "like_match (''%'' @ q @ ''%'') s \<longleftrightarrow> sublist q s"
proof -
  have "like_match (''%'' @ q @ ''%'') s \<longleftrightarrow> (\<exists>t. suffix t s \<and> like_match (q @ ''%'') t)"
    using like_match_percent_first[of "q @ ''%''" s] by simp
  also have "\<dots> \<longleftrightarrow> (\<exists>t. suffix t s \<and> prefix q t)"
    using like_match_plain_prefix[OF assms] by simp
  also have "\<dots> \<longleftrightarrow> sublist q s"
    by (simp add: sublist_altdef')
  finally show ?thesis .
qed

lemma lower_char_plain:
  assumes "plain_char c"
  shows "plain_char (lower_char c)"
proof (cases "is_upper c")
  case False
  then show ?thesis using assms by (simp add: lower_char_def)
next
  case True
  have "(of_char (lower_char c) :: nat) = (of_char c + 32) mod 256"
    using True by (simp add: lower_char_def)
  moreover have "(of_char c :: nat) + 32 < 256"
    using True by (auto simp: is_upper_def)
  ultimately have v: "97 \<le> (of_char (lower_char c) :: nat)"
    using True by (auto simp: is_upper_def)
  have "lower_char c \<noteq> CHR ''%''" "lower_char c \<noteq> CHR ''_''" "lower_char c \<noteq> CHR 0x5C"
    using v by auto
  then show ?thesis by (simp add: plain_char_def)
qed

lemma toLowerCase_plain: "list_all plain_char q \<Longrightarrow> list_all plain_char (toLowerCase q)"
  by (induction q) (simp_all add: toLowerCase_def lower_char_plain)

lemma toLowerCase_pattern:
  "toLowerCase (''%'' @ q @ ''%'') = ''%'' @ toLowerCase q @ ''%''"
  by (simp add: toLowerCase_def lower_char_def is_upper_def)

lemma ilike_contains:
  "plain_query q \<Longrightarrow> ilike s (''%'' @ q @ ''%'') \<longleftrightarrow> contains_ci q s"
  unfolding ilike_def toLowerCase_pattern contains_ci_def plain_query_def
  by (rule like_match_contains) (rule toLowerCase_plain)

lemma whereClause_list_all: "whereClause cs c = list_all (\<lambda>p. p c) cs"
  by (cases cs) (simp_all add: whereClause_def)

lemma course_view_of_fields:
  "v_category (course_view_of c) = c_category c"
  "v_level (course_view_of c) = c_level c"
  "v_title (course_view_of c) = c_title c"
  "v_description (course_view_of c) = c_description c"
  by (simp_all add: course_view_of_def)

lemma conditions_hold:
  assumes "whereClause (conditions query_arg category_arg level_arg) c"
  shows "(case category_arg of None \<Rightarrow> True | Some g \<Rightarrow> g \<noteq> [] \<longrightarrow> c_category c = g)"
    and "(case level_arg of None \<Rightarrow> True | Some l \<Rightarrow> c_level c = level_str l)"
    and "(case query_arg of None \<Rightarrow> True | Some q \<Rightarrow> q \<noteq> [] \<longrightarrow> query_condition q c)"
  using assms
  by (auto simp: whereClause_list_all conditions_def split: option.splits if_splits)

lemma query_condition_contains:
  assumes "plain_query q" and "q \<noteq> [] \<longrightarrow> query_condition q c"
  shows "contains_ci q (c_title c) \<or> contains_ci q (c_description c)
         \<or> contains_ci q (c_category c)"
proof (cases "q = []")
  case True
  then show ?thesis by (simp add: contains_ci_def toLowerCase_def)
next
  case False
  then show ?thesis
    using assms ilike_contains[OF assms(1)] by (auto simp: query_condition_def)
qed

lemma conditions_empty_query:
  "conditions (Some []) category_arg level_arg = conditions None category_arg level_arg"
  by (simp add: conditions_def)

lemma conditions_empty_category:
  "conditions query_arg (Some []) level_arg = conditions query_arg None level_arg"
  by (simp add: conditions_def)

lemma searchCourses_courses:
  "courses_of (fst (searchCoursesTool outcome d query_arg category_arg level_arg limit_arg))
     = (case outcome of
          SelectThrows t \<Rightarrow> []
        | SelectReads rows \<Rightarrow>
            select_courses (whereClause (conditions query_arg category_arg level_arg))
              (case limit_arg of None \<Rightarrow> 20 | Some n \<Rightarrow> n) rows)"
  by (simp add: searchCoursesTool_def courses_of_def Let_def split: select_outcome.splits)

lemma getAllCourses_courses:
  "courses_of (fst (getAllCoursesTool outcome d limit_arg))
     = (case outcome of
          SelectThrows t \<Rightarrow> []
        | SelectReads rows \<Rightarrow>
            select_courses (\<lambda>c. True) (case limit_arg of None \<Rightarrow> 50 | Some n \<Rightarrow> n) rows)"
  by (simp add: getAllCoursesTool_def courses_of_def Let_def split: select_outcome.splits)

subsection \<open>Listing all courses\<close>

text \<open>
  Claim C2, as amended. Every execution of the listing tool leaves the data store as it
  was. The returned list is ordered by ascending rating and, among equal ratings, by
  ascending enrolment count, and its courses are rows of the course table. It holds at most
  \<^verbatim>\<open>limit\<close> courses (50 when no limit is given) when the limit is not negative; with a
  negative limit it holds every course of the table. When the query returns, the result is
  the object with the members \<^verbatim>\<open>courses\<close>, \<^verbatim>\<open>count\<close>, \<^verbatim>\<open>totalShowing\<close> and \<^verbatim>\<open>limit\<close> and no
  \<^verbatim>\<open>error\<close> member, also when the list is empty, and the list holds as many courses as the
  limit and the table allow.
\<close>

theorem getAllCourses_ascending:
  assumes "getAllCoursesTool outcome d limit_arg = (r, d')" and "reads_table outcome d"
  shows "d' = d
       \<and> (0 \<le> (case limit_arg of None \<Rightarrow> 50 | Some n \<Rightarrow> n) \<longrightarrow>
            int (length (courses_of r)) \<le> (case limit_arg of None \<Rightarrow> 50 | Some n \<Rightarrow> n))
       \<and> sorted_wrt (\<lambda>v w. v_rating v < v_rating w
                 \<or> (v_rating v = v_rating w \<and> v_enrollmentCount v \<le> v_enrollmentCount w))
            (courses_of r)
       \<and> set (courses_of r) \<subseteq> course_view_of ` set (courses d)
       \<and> (case outcome of
            SelectThrows t \<Rightarrow>
              r = VObj [(''error'', VStr ''Failed to get all courses''), (''courses'', VViews []),
                        (''count'', VNum 0)]
          | SelectReads rows \<Rightarrow>
              r = VObj [(''courses'', VViews (courses_of r)),
                        (''count'', VNum (length (courses_of r))),
                        (''totalShowing'', VNum (length (courses_of r))),
                        (''limit'', VInt (case limit_arg of None \<Rightarrow> 50 | Some n \<Rightarrow> n))]
              \<and> length (courses_of r)
                   = (if 0 \<le> (case limit_arg of None \<Rightarrow> 50 | Some n \<Rightarrow> n)
                      then min (nat (case limit_arg of None \<Rightarrow> 50 | Some n \<Rightarrow> n))
                             (length (courses d))
                      else length (courses d)))"
proof (cases outcome)
  case (SelectReads rows)
  define lim where "lim = (case limit_arg of None \<Rightarrow> 50 | Some n \<Rightarrow> (n::int))"
  define vs where "vs = select_courses (\<lambda>c. True) lim rows"
  have r: "r = VObj [(''courses'', VViews vs), (''count'', VNum (length vs)),
                     (''totalShowing'', VNum (length vs)), (''limit'', VInt lim)]"
    and d: "d' = d"
    using assms(1) SelectReads by (auto simp: getAllCoursesTool_def Let_def vs_def lim_def)
  have c: "courses_of r = vs" by (simp add: r courses_of_def)
  have rd: "reads_table (SelectReads rows) d" using assms(2) SelectReads by simp
  have len: "length vs = (if 0 \<le> lim then min (nat lim) (length (courses d)) else length (courses d))"
    using reads_table_length[OF rd] by (simp add: vs_def select_courses_length)
  have cap: "0 \<le> lim \<longrightarrow> int (length vs) \<le> lim" using len by auto
  have sub: "set vs \<subseteq> course_view_of ` set (courses d)"
    using select_courses_set[of "\<lambda>c. True" lim rows] reads_table_set[OF rd]
    by (simp add: vs_def)
  have srt: "sorted_wrt (\<lambda>v w. v_rating v < v_rating w
                 \<or> (v_rating v = v_rating w \<and> v_enrollmentCount v \<le> v_enrollmentCount w)) vs"
    unfolding vs_def by (rule select_courses_sorted)
  show ?thesis
    unfolding c lim_def[symmetric]
    using d len cap sub srt r SelectReads by simp
next
  case (SelectThrows t)
  then have "r = VObj [(''error'', VStr ''Failed to get all courses''), (''courses'', VViews []),
                    (''count'', VNum 0)]" and "d' = d"
    using assms(1) by (auto simp: getAllCoursesTool_def Let_def)
  then show ?thesis using SelectThrows by (simp add: courses_of_def)
qed

theorem getAllCourses_ascending_witness:
  "reads_table (SelectReads (rev (courses catalog_db))) catalog_db
   \<and> map v_id (courses_of (fst (getAllCoursesTool (SelectReads (rev (courses catalog_db)))
                                  catalog_db (Some 2)))) = [''c3'', ''c2'']
   \<and> map v_rating (courses_of (fst (getAllCoursesTool (SelectReads (rev (courses catalog_db)))
                                      catalog_db (Some 2)))) = [3, 3]
   \<and> map v_enrollmentCount (courses_of (fst (getAllCoursesTool
          (SelectReads (rev (courses catalog_db))) catalog_db (Some 2)))) = [7, 40]
   \<and> snd (getAllCoursesTool (SelectReads (rev (courses catalog_db))) catalog_db (Some 2))
        = catalog_db
   \<and> opt_member (fst (getAllCoursesTool (SelectReads (rev (courses catalog_db))) catalog_db
                        (Some 2))) ''error'' = VUndefined"
proof -
  let ?run = "getAllCoursesTool (SelectReads (rev (courses catalog_db))) catalog_db (Some 2)"
  have h: "?run = (fst ?run, snd ?run)" by simp
  have t: "reads_table (SelectReads (rev (courses catalog_db))) catalog_db" by simp
  have a: "map v_id (courses_of (fst ?run)) = [''c3'', ''c2'']" by code_simp
  have b: "map v_rating (courses_of (fst ?run)) = [3, 3]" by code_simp
  have c: "map v_enrollmentCount (courses_of (fst ?run)) = [7, 40]" by code_simp
  have e: "opt_member (fst ?run) ''error'' = VUndefined" by code_simp
  from getAllCourses_ascending[OF h t] have "snd ?run = catalog_db" by (elim conjE)
  then show ?thesis using t a b c e by (simp only: simp_thms)
qed

text \<open>
  Claim C2 as stated fails in two ways. On the sample catalogue the ratings come back as
  3, 3, 5 and the enrolment counts as 7, 40, 10, which is not descending. With the limit
  \<open>-1\<close> the tool returns all three courses, more than the limit.
\<close>

theorem descending_order_counterexample:
  "map v_rating (courses_of (fst (getAllCoursesTool (SelectReads (courses catalog_db))
                                    catalog_db None))) = [3, 3, 5]
   \<and> map v_enrollmentCount (courses_of (fst (getAllCoursesTool (SelectReads (courses catalog_db))
                                    catalog_db None))) = [7, 40, 10]
   \<and> \<not> sorted_wrt (\<lambda>v w. v_rating v > v_rating w
                 \<or> (v_rating v = v_rating w \<and> v_enrollmentCount v \<ge> v_enrollmentCount w))
          (courses_of (fst (getAllCoursesTool (SelectReads (courses catalog_db)) catalog_db None)))
   \<and> length (courses_of (fst (getAllCoursesTool (SelectReads (courses catalog_db)) catalog_db
                                (Some (- 1))))) = 3
   \<and> \<not> int (length (courses_of (fst (getAllCoursesTool (SelectReads (courses catalog_db))
                                       catalog_db (Some (- 1)))))) \<le> - 1"
  by code_simp


subsection \<open>Searching courses\<close>

text \<open>
  Claim C6, as amended. Every execution of the search tool leaves the data store as it was
  and returns courses of the course table, at most \<^verbatim>\<open>limit\<close> of them (20 when no limit is
  given) when the limit is not negative. Every returned course has the supplied category
  when that is a non-empty string, has the supplied level, and, for a supplied non-empty
  query \<open>q\<close>, its title, description or category matches the pattern \<^verbatim>\<open>%q%\<close> without regard
  to letter case; when the query is plain, this means that the query occurs in one of the
  three as a substring without regard to letter case. A query or a category supplied as
  the empty string returns the same courses as an absent one. When query, category and
  level are all absent, the tool returns the courses that the listing tool returns for the
  same limit, 20 when no limit is given.
\<close>

theorem searchCourses_filters:
  assumes "searchCoursesTool outcome d query_arg category_arg level_arg limit_arg = (r, d')"
    and "reads_table outcome d"
  shows "d' = d
       \<and> (0 \<le> (case limit_arg of None \<Rightarrow> 20 | Some n \<Rightarrow> n) \<longrightarrow>
            int (length (courses_of r)) \<le> (case limit_arg of None \<Rightarrow> 20 | Some n \<Rightarrow> n))
       \<and> set (courses_of r) \<subseteq> course_view_of ` set (courses d)
       \<and> (\<forall>v \<in> set (courses_of r).
            (case category_arg of None \<Rightarrow> True | Some g \<Rightarrow> g \<noteq> [] \<longrightarrow> v_category v = g)
          \<and> (case level_arg of None \<Rightarrow> True | Some l \<Rightarrow> v_level v = level_str l)
          \<and> (case query_arg of None \<Rightarrow> True
              | Some q \<Rightarrow>
                  (q \<noteq> [] \<longrightarrow>
                     ilike (v_title v) (''%'' @ q @ ''%'')
                     \<or> ilike (v_description v) (''%'' @ q @ ''%'')
                     \<or> ilike (v_category v) (''%'' @ q @ ''%''))
                  \<and> (plain_query q \<longrightarrow>
                       contains_ci q (v_title v) \<or> contains_ci q (v_description v)
                       \<or> contains_ci q (v_category v))))
       \<and> courses_of (fst (searchCoursesTool outcome d (Some []) category_arg level_arg limit_arg))
           = courses_of (fst (searchCoursesTool outcome d None category_arg level_arg limit_arg))
       \<and> courses_of (fst (searchCoursesTool outcome d query_arg (Some []) level_arg limit_arg))
           = courses_of (fst (searchCoursesTool outcome d query_arg None level_arg limit_arg))
       \<and> (query_arg = None \<and> category_arg = None \<and> level_arg = None \<longrightarrow>
            courses_of r
              = courses_of (fst (getAllCoursesTool outcome d
                                   (Some (case limit_arg of None \<Rightarrow> 20 | Some n \<Rightarrow> n)))))"
proof -
  define lim where "lim = (case limit_arg of None \<Rightarrow> 20 | Some n \<Rightarrow> (n::int))"
  define w where
    "w = whereClause (conditions query_arg category_arg level_arg :: ('a course_row \<Rightarrow> bool) list)"
  have r: "r = fst (searchCoursesTool outcome d query_arg category_arg level_arg limit_arg)"
    using assms(1) by simp
  have d: "d' = d"
    using assms(1) by (auto simp: searchCoursesTool_def Let_def split: select_outcome.splits)
  have c: "courses_of r = (case outcome of SelectThrows t \<Rightarrow> []
                           | SelectReads rows \<Rightarrow> select_courses w lim rows)"
    unfolding r searchCourses_courses w_def lim_def ..
  have empty_q: "courses_of (fst (searchCoursesTool outcome d (Some []) category_arg level_arg limit_arg))
           = courses_of (fst (searchCoursesTool outcome d None category_arg level_arg limit_arg))"
    by (simp only: searchCourses_courses conditions_empty_query)
  have empty_g: "courses_of (fst (searchCoursesTool outcome d query_arg (Some []) level_arg limit_arg))
           = courses_of (fst (searchCoursesTool outcome d query_arg None level_arg limit_arg))"
    by (simp only: searchCourses_courses conditions_empty_category)
  have same: "courses_of r = courses_of (fst (getAllCoursesTool outcome d (Some lim)))"
    if "query_arg = None \<and> category_arg = None \<and> level_arg = None"
  proof -
    have "w = (\<lambda>c. True)"
      using that by (simp add: w_def conditions_def whereClause_def fun_eq_iff)
    then show ?thesis
      by (simp add: c getAllCourses_courses split: select_outcome.splits)
  qed
  show ?thesis
  proof (cases outcome)
    case (SelectThrows t)
    then have "courses_of r = []" by (simp add: c)
    then show ?thesis
      unfolding lim_def[symmetric]
      using d empty_q empty_g same by simp
  next
    case (SelectReads rows)
    then have vs: "courses_of r = select_courses w lim rows" by (simp add: c)
    have rd: "reads_table (SelectReads rows) d" using assms(2) SelectReads by simp
    have cap: "0 \<le> lim \<longrightarrow> int (length (courses_of r)) \<le> lim"
      by (auto simp: vs select_courses_length)
    have sub: "set (courses_of r) \<subseteq> course_view_of ` set (courses d)"
      using select_courses_set[of w lim rows] reads_table_set[OF rd] by (auto simp: vs)
    have each: "(case category_arg of None \<Rightarrow> True | Some g \<Rightarrow> g \<noteq> [] \<longrightarrow> v_category v = g)
          \<and> (case level_arg of None \<Rightarrow> True | Some l \<Rightarrow> v_level v = level_str l)
          \<and> (case query_arg of None \<Rightarrow> True
              | Some q \<Rightarrow>
                  (q \<noteq> [] \<longrightarrow>
                     ilike (v_title v) (''%'' @ q @ ''%'')
                     \<or> ilike (v_description v) (''%'' @ q @ ''%'')
                     \<or> ilike (v_category v) (''%'' @ q @ ''%''))
                  \<and> (plain_query q \<longrightarrow>
                       contains_ci q (v_title v) \<or> contains_ci q (v_description v)
                       \<or> contains_ci q (v_category v)))" if "v \<in> set (courses_of r)" for v
    proof -
      from that select_courses_set[of w lim rows] obtain c0
        where v: "v = course_view_of c0" and wc: "w c0"
        unfolding vs by auto
      note h = conditions_hold[OF wc[unfolded w_def]]
      have q: "case query_arg of None \<Rightarrow> True
              | Some q \<Rightarrow>
                  (q \<noteq> [] \<longrightarrow> query_condition q c0)
                  \<and> (plain_query q \<longrightarrow>
                       contains_ci q (c_title c0) \<or> contains_ci q (c_description c0)
                       \<or> contains_ci q (c_category c0))"
        using h(3) query_condition_contains[of _ c0] by (auto split: option.splits)
      show ?thesis
        using h(1,2) q
        by (simp add: v course_view_of_fields query_condition_def split: option.splits)
    qed
    show ?thesis
      unfolding lim_def[symmetric]
      using d cap sub each empty_q empty_g same by blast
  qed
qed

theorem searchCourses_filters_witness:
  "reads_table (SelectReads (rev (courses catalog_db))) catalog_db
   \<and> map v_id (courses_of (fst (searchCoursesTool (SelectReads (rev (courses catalog_db)))
              catalog_db (Some ''GO'') (Some ''backend'') (Some Beginner) None))) = [''c3'']
   \<and> plain_query ''GO''
   \<and> list_all (\<lambda>v. v_category v = ''backend'' \<and> v_level v = ''beginner''
                    \<and> (contains_ci ''GO'' (v_title v) \<or> contains_ci ''GO'' (v_description v)
                        \<or> contains_ci ''GO'' (v_category v)))
        (courses_of (fst (searchCoursesTool (SelectReads (rev (courses catalog_db))) catalog_db
                            (Some ''GO'') (Some ''backend'') (Some Beginner) None)))
   \<and> map v_id (courses_of (fst (searchCoursesTool (SelectReads (rev (courses catalog_db)))
              catalog_db None None None None))) = [''c3'', ''c2'', ''c1'']"
proof -
  let ?o = "SelectReads (rev (courses catalog_db)) :: nat select_outcome"
  let ?run = "searchCoursesTool ?o catalog_db (Some ''GO'') (Some ''backend'') (Some Beginner) None"
  have h: "?run = (fst ?run, snd ?run)" by simp
  have t: "reads_table ?o catalog_db" by simp
  have a: "map v_id (courses_of (fst ?run)) = [''c3'']" by code_simp
  have p: "plain_query ''GO''" by code_simp
  have b: "map v_id (courses_of (fst (searchCoursesTool ?o catalog_db None None None None)))
             = [''c3'', ''c2'', ''c1'']" by code_simp
  from searchCourses_filters[OF h t] p
  have "\<forall>v \<in> set (courses_of (fst ?run)).
          v_category v = ''backend'' \<and> v_level v = ''beginner''
          \<and> (contains_ci ''GO'' (v_title v) \<or> contains_ci ''GO'' (v_description v)
              \<or> contains_ci ''GO'' (v_category v))"
    by auto
  then have "list_all (\<lambda>v. v_category v = ''backend'' \<and> v_level v = ''beginner''
                    \<and> (contains_ci ''GO'' (v_title v) \<or> contains_ci ''GO'' (v_description v)
                        \<or> contains_ci ''GO'' (v_category v))) (courses_of (fst ?run))"
    by (simp only: list_all_iff)
  then show ?thesis using t a p b by (simp only: simp_thms)
qed

text \<open>
  Claim C6 as stated fails in three ways. A category supplied as the empty string is not
  applied as a filter, so courses of other categories are returned. A query with the
  wildcard \<^verbatim>\<open>_\<close> returns courses that do not contain the query as a substring. With the
  limit \<open>-1\<close> the tool returns all three courses, more than the limit.
\<close>

theorem search_filters_counterexample:
  "map v_category (courses_of (fst (searchCoursesTool (SelectReads (courses catalog_db))
              catalog_db None (Some []) None None))) = [''backend'', ''data'', ''frontend'']
   \<and> map v_title (courses_of (fst (searchCoursesTool (SelectReads (courses catalog_db))
              catalog_db (Some ''a_c'') None None None))) = [''ABC of Go'', ''Advanced React'']
   \<and> list_all (\<lambda>v. \<not> contains_ci ''a_c'' (v_title v) \<and> \<not> contains_ci ''a_c'' (v_description v)
                    \<and> \<not> contains_ci ''a_c'' (v_category v))
        (courses_of (fst (searchCoursesTool (SelectReads (courses catalog_db)) catalog_db
                            (Some ''a_c'') None None None)))
   \<and> length (courses_of (fst (searchCoursesTool (SelectReads (courses catalog_db)) catalog_db
                                None None None (Some (- 1))))) = 3"
  by code_simp

section \<open>Properties of the generation route and of the statistics route\<close>

subsection \<open>Auxiliary facts\<close>




subsection \<open>A model that only writes text\<close>




subsection \<open>Statistics\<close>

text \<open>
  Claim C10. For every data store, a response of the statistics route with status 200
  reports \<^verbatim>\<open>aiGeneratedCourses\<close> as 0 and \<^verbatim>\<open>totalCourses\<close> as the number of course rows,
  and the route leaves the data store as it was. This holds whatever the generation route
  created before: after a run that created a course the route reports 1 and 0.
\<close>

theorem stats_reports_zero:
  assumes "ai_stats outcome d = (resp, d')" and "status resp = 200"
  shows "opt_member (body resp) ''aiGeneratedCourses'' = VNum 0
       \<and> opt_member (body resp) ''totalCourses'' = VNum (length (courses d))
       \<and> d' = d"
  using assms by (cases outcome) (auto simp: ai_stats_def)

theorem stats_reports_zero_witness:
  "status (fst (generate_course creating_run demo_db valid_request)) = 200
   \<and> length (courses (snd (generate_course creating_run demo_db valid_request))) = 1
   \<and> status (fst (ai_stats None (snd (generate_course creating_run demo_db valid_request)))) = 200
   \<and> opt_member (body (fst (ai_stats None (snd (generate_course creating_run demo_db valid_request)))))
        ''aiGeneratedCourses'' = VNum 0
   \<and> opt_member (body (fst (ai_stats None (snd (generate_course creating_run demo_db valid_request)))))
        ''totalCourses'' = VNum 1"
proof -
  let ?d = "snd (generate_course creating_run demo_db valid_request)"
  let ?run = "ai_stats None ?d"
  have g: "status (fst (generate_course creating_run demo_db valid_request)) = 200" by code_simp
  have l: "length (courses ?d) = 1" by code_simp
  have h1: "?run = (fst ?run, snd ?run)" by simp
  have h2: "status (fst ?run) = 200" by (simp add: ai_stats_def)
  show ?thesis using stats_reports_zero[OF h1 h2] g l h2 by (simp only: simp_thms)
qed

end
